theory Spec2Isabelle
  imports Main "HOL-Library.Word"
begin

section \<open>JavaScript strings\<close>

text \<open>
  A JavaScript string is a sequence of UTF-16 code units. The literals of
  \<^verbatim>\<open>static/script.js\<close> that are plain ASCII are written with \<open>ascii\<close>; the Arabic
  literals and the emoji are given by their code units.
\<close>

type_synonym jsstring = "16 word list"

definition ascii :: "string \<Rightarrow> jsstring" where
  "ascii s = map of_char s"

definition units :: "nat list \<Rightarrow> jsstring" where
  "units ns = map of_nat ns"

text \<open>
  \<^verbatim>\<open>String.prototype.trim\<close> strips the code points of the ECMAScript productions
  WhiteSpace and LineTerminator from both ends. All of them lie in the basic plane, so
  each is one code unit.
\<close>

definition isWhiteSpace :: "16 word \<Rightarrow> bool" where
  "isWhiteSpace c \<longleftrightarrow>
     c \<in> set [0x9, 0xA, 0xB, 0xC, 0xD, 0x20, 0xA0, 0x1680, 0x2028, 0x2029,
              0x202F, 0x205F, 0x3000, 0xFEFF]
     \<or> (0x2000 \<le> c \<and> c \<le> 0x200A)"

definition trim :: "jsstring \<Rightarrow> jsstring" where
  "trim s = rev (dropWhile isWhiteSpace (rev (dropWhile isWhiteSpace s)))"

text \<open>\<^verbatim>\<open>s.substr(start, len)\<close> for non-negative arguments.\<close>

definition substr :: "nat \<Rightarrow> nat \<Rightarrow> jsstring \<Rightarrow> jsstring" where
  "substr start len s = take len (drop start s)"

text \<open>
  Number-to-string conversion of an integer-valued Number below \<open>10^21\<close> in
  magnitude (a time value, an HTTP status), as a template literal performs it.
\<close>

function decimal :: "nat \<Rightarrow> jsstring" where
  "decimal n = (if n < 10 then [of_nat (48 + n)]
                else decimal (n div 10) @ [of_nat (48 + n mod 10)])"
  by pat_completeness auto
termination
  by (relation "measure id") auto

definition numberToString :: "int \<Rightarrow> jsstring" where
  "numberToString i = (if i < 0 then 0x2D # decimal (nat (- i)) else decimal (nat i))"

section \<open>The page\<close>

datatype language = En | Ar

definition language_code :: "language \<Rightarrow> jsstring" where
  "language_code l = (case l of En \<Rightarrow> ascii ''en'' | Ar \<Rightarrow> ascii ''ar'')"

text \<open>
  \<^verbatim>\<open>classList\<close> of an element: an ordered collection of class tokens with
  \<^verbatim>\<open>add\<close>, \<^verbatim>\<open>remove\<close> and \<^verbatim>\<open>toggle\<close>.
\<close>

definition classList_add :: "jsstring \<Rightarrow> jsstring list \<Rightarrow> jsstring list" where
  "classList_add t cl = (if t \<in> set cl then cl else cl @ [t])"

definition classList_remove :: "jsstring \<Rightarrow> jsstring list \<Rightarrow> jsstring list" where
  "classList_remove t cl = filter (\<lambda>x. x \<noteq> t) cl"

definition classList_toggle :: "jsstring \<Rightarrow> jsstring list \<Rightarrow> jsstring list" where
  "classList_toggle t cl = (if t \<in> set cl then classList_remove t cl else cl @ [t])"

record button =
  btn_classList :: "jsstring list"
  btn_innerHTML :: jsstring
  btn_title :: jsstring

definition selected :: "button \<Rightarrow> bool" where
  "selected b \<longleftrightarrow> ascii ''selected'' \<in> set (btn_classList b)"

record textarea =
  ta_placeholder :: jsstring
  ta_rows :: nat
  ta_value :: jsstring

text \<open>
  The children of a comment box: either the text area and the submit button that
  \<^verbatim>\<open>createCommentBox\<close> appends (the button is given by its text), or whatever
  markup was assigned to the box's \<^verbatim>\<open>innerHTML\<close>.
\<close>

datatype box_children = Form textarea jsstring | Markup jsstring

record comment_box =
  box_className :: jsstring
  box_children :: box_children

text \<open>
  The feedback area of a message: the button container with its three buttons,
  followed by the comment boxes appended to the area.
\<close>

record feedback_area =
  area_className :: jsstring
  container_className :: jsstring
  likeBtn :: button
  dislikeBtn :: button
  commentBtn :: button
  area_boxes :: "comment_box list"

text \<open>
  A message element of the transcript. \<open>node\<close> is the identity of the DOM node
  (the handle \<^verbatim>\<open>appendMessage\<close> returns); \<open>p_innerHTML\<close> is the string
  assigned to the \<^verbatim>\<open>innerHTML\<close> of its paragraph.
\<close>

record message =
  node :: nat
  msg_className :: jsstring
  p_innerHTML :: jsstring
  msg_feedback :: "feedback_area option"

text \<open>The JSON body of the request to \<^verbatim>\<open>/chat\<close>.\<close>

record request =
  req_url :: jsstring
  req_method :: jsstring
  req_query :: jsstring
  req_session_id :: "jsstring option"
  req_client_id :: jsstring
  req_language :: jsstring

text \<open>
  The script's two variables, the parts of the host page it reads or writes, and
  what it sends to the outside: console lines (one list of arguments per call),
  alerts and network requests. \<open>next_node\<close> numbers the nodes that
  \<^verbatim>\<open>document.createElement\<close> makes for messages. Scrolling is not modelled.
\<close>

record page =
  currentSessionId :: "jsstring option"
  currentLanguage :: language
  doc_lang :: jsstring
  doc_dir :: jsstring
  label_text :: jsstring
  input_placeholder :: jsstring
  input_value :: jsstring
  input_disabled :: bool
  send_text :: jsstring
  send_disabled :: bool
  selector_value :: jsstring
  selector_disabled :: bool
  session_span :: jsstring
  toggle_checked :: bool
  chatBox :: "message list"
  next_node :: nat
  console :: "jsstring list list"
  alerts :: "jsstring list"
  requests :: "request list"

section \<open>The functions of the script\<close>

definition updateUIText :: "page \<Rightarrow> page" where
  "updateUIText st =
     (if currentLanguage st = En then
        st\<lparr>doc_lang := ascii ''en'', doc_dir := ascii ''ltr'',
           label_text := ascii ''Select Client:'',
           input_placeholder := ascii ''Ask a question...'',
           send_text := ascii ''Send''\<rparr>
      else
        st\<lparr>doc_lang := ascii ''ar'', doc_dir := ascii ''rtl'',
           label_text := units [1575, 1582, 1578, 1585, 32, 1575, 1604, 1593, 1605,
                                1610, 1604, 58],
           input_placeholder := units [1575, 1591, 1585, 1581, 32, 1587, 1572, 1575,
                                       1604, 1575, 1611, 46, 46, 46],
           send_text := units [1573, 1585, 1587, 1575, 1604]\<rparr>)"

definition createFeedbackButton :: "jsstring \<Rightarrow> jsstring \<Rightarrow> button" where
  "createFeedbackButton emoji title =
     \<lparr>btn_classList = [ascii ''feedback-btn''], btn_innerHTML = emoji, btn_title = title\<rparr>"

definition createCommentBox :: comment_box where
  "createCommentBox =
     \<lparr>box_className = ascii ''comment-box'',
      box_children =
        Form \<lparr>ta_placeholder = ascii ''Provide additional feedback...'', ta_rows = 2,
              ta_value = []\<rparr>
             (ascii ''Submit'')\<rparr>"

definition acknowledgment :: jsstring where
  "acknowledgment =
     ascii ''<p style=\"font-size: 0.9em; color: green;\"><em>Thanks for your feedback!</em></p>''"

text \<open>
  The click listener of the submit button of a comment box. It returns the box and
  the console lines it printed. Once the box's content has been replaced, the button
  is no longer in the document and the listener cannot run.
\<close>

definition submitBtn_click :: "comment_box \<Rightarrow> comment_box \<times> jsstring list list" where
  "submitBtn_click commentBox =
     (case box_children commentBox of
        Form ta submitText \<Rightarrow>
          (let commentText = trim (ta_value ta) in
           if commentText \<noteq> [] then
             (commentBox\<lparr>box_children := Markup acknowledgment\<rparr>,
              [[ascii ''Feedback Comment Submitted: \"'' @ commentText @ ascii ''\"'']])
           else (commentBox, []))
      | Markup _ \<Rightarrow> (commentBox, []))"

text \<open>The feedback area that \<^verbatim>\<open>appendMessage\<close> builds when \<open>addFeedback\<close> holds.\<close>

definition new_feedbackArea :: feedback_area where
  "new_feedbackArea =
     \<lparr>area_className = ascii ''feedback-area'',
      container_className = ascii ''feedback-buttons'',
      likeBtn = createFeedbackButton (units [55357, 56397]) (ascii ''Like''),
      dislikeBtn = createFeedbackButton (units [55357, 56398]) (ascii ''Dislike''),
      commentBtn = createFeedbackButton (units [55357, 56492]) (ascii ''Comment''),
      area_boxes = []\<rparr>"

text \<open>The three click listeners that \<^verbatim>\<open>appendMessage\<close> installs.\<close>

definition likeBtn_click :: "feedback_area \<Rightarrow> feedback_area \<times> jsstring list list" where
  "likeBtn_click fa =
     (fa\<lparr>likeBtn := (likeBtn fa)\<lparr>btn_classList :=
             classList_toggle (ascii ''selected'') (btn_classList (likeBtn fa))\<rparr>,
         dislikeBtn := (dislikeBtn fa)\<lparr>btn_classList :=
             classList_remove (ascii ''selected'') (btn_classList (dislikeBtn fa))\<rparr>\<rparr>,
      [[ascii ''Feedback: Liked'']])"

definition dislikeBtn_click :: "feedback_area \<Rightarrow> feedback_area \<times> jsstring list list" where
  "dislikeBtn_click fa =
     (fa\<lparr>dislikeBtn := (dislikeBtn fa)\<lparr>btn_classList :=
             classList_toggle (ascii ''selected'') (btn_classList (dislikeBtn fa))\<rparr>,
         likeBtn := (likeBtn fa)\<lparr>btn_classList :=
             classList_remove (ascii ''selected'') (btn_classList (likeBtn fa))\<rparr>\<rparr>,
      [[ascii ''Feedback: Disliked'']])"

text \<open>
  \<^verbatim>\<open>feedbackArea.querySelector('.comment-box')\<close>: the first descendant of the area
  with that class. The buttons carry \<^verbatim>\<open>feedback-btn\<close> and the acknowledgment markup
  has no class, so it is the first comment box of the area, if any.
\<close>

definition querySelector_comment_box :: "feedback_area \<Rightarrow> comment_box option" where
  "querySelector_comment_box fa =
     List.find (\<lambda>b. box_className b = ascii ''comment-box'') (area_boxes fa)"

definition commentBtn_click :: "feedback_area \<Rightarrow> feedback_area \<times> jsstring list list" where
  "commentBtn_click fa =
     (case querySelector_comment_box fa of
        Some existingCommentBox \<Rightarrow>
          (fa\<lparr>area_boxes := remove1 existingCommentBox (area_boxes fa),
              commentBtn := (commentBtn fa)\<lparr>btn_classList :=
                 classList_remove (ascii ''selected'') (btn_classList (commentBtn fa))\<rparr>\<rparr>,
           [])
      | None \<Rightarrow>
          (fa\<lparr>commentBtn := (commentBtn fa)\<lparr>btn_classList :=
                 classList_add (ascii ''selected'') (btn_classList (commentBtn fa))\<rparr>,
              area_boxes := area_boxes fa @ [createCommentBox]\<rparr>,
           []))"

text \<open>
  \<^verbatim>\<open>appendMessage(text, className, addFeedback)\<close> returns the handle of the new
  message element and the page with the element appended to the chat box.
\<close>

definition appendMessage :: "jsstring \<Rightarrow> jsstring \<Rightarrow> bool \<Rightarrow> page \<Rightarrow> nat \<times> page" where
  "appendMessage text className addFeedback st =
     (let messageDiv =
            \<lparr>node = next_node st,
             msg_className = ascii ''message '' @ className,
             p_innerHTML = text,
             msg_feedback = (if addFeedback then Some new_feedbackArea else None)\<rparr>
      in (node messageDiv,
          st\<lparr>chatBox := chatBox st @ [messageDiv], next_node := Suc (next_node st)\<rparr>))"

definition toggleFormState :: "bool \<Rightarrow> page \<Rightarrow> page" where
  "toggleFormState isLoading st =
     st\<lparr>input_disabled := isLoading, send_disabled := isLoading,
        selector_disabled := isLoading\<rparr>"

definition welcomeMessage :: "language \<Rightarrow> jsstring" where
  "welcomeMessage l =
     (if l = En then
        ascii ''Hello! I'' @ [0x27] @ ascii ''m your Relationship Manager assistant. Please select a client and ask me a question about them.''
      else
        units [1605, 1585, 1581, 1576, 1575, 1611, 33, 32, 1571, 1606, 1575, 32, 1605,
               1587, 1575, 1593, 1583, 32, 1605, 1583, 1610, 1585, 32, 1575, 1604, 1593,
               1604, 1575, 1602, 1575, 1578, 32, 1575, 1604, 1582, 1575, 1589, 32, 1576,
               1603, 46, 32, 1610, 1585, 1580, 1609, 32, 1575, 1582, 1578, 1610, 1575,
               1585, 32, 1593, 1605, 1610, 1604, 32, 1608, 1591, 1585, 1581, 32, 1587,
               1572, 1575, 1604, 1603, 32, 1593, 1606, 1607, 46])"

text \<open>
  \<^verbatim>\<open>startNewSession\<close> reads the clock and the random number generator: \<open>now\<close> is the
  value of \<^verbatim>\<open>Date.now()\<close> and \<open>rnd36\<close> the string \<^verbatim>\<open>Math.random().toString(36)\<close>.
\<close>

definition session_token :: "int \<Rightarrow> jsstring \<Rightarrow> jsstring" where
  "session_token now rnd36 =
     ascii ''session_'' @ numberToString now @ ascii ''_'' @ substr 2 9 rnd36"

definition startNewSession :: "int \<Rightarrow> jsstring \<Rightarrow> page \<Rightarrow> page" where
  "startNewSession now rnd36 st =
     (let sid = session_token now rnd36;
          st1 = st\<lparr>currentSessionId := Some sid, session_span := sid, chatBox := []\<rparr>;
          st2 = snd (appendMessage (welcomeMessage (currentLanguage st1))
                       (ascii ''bot-message'') False st1)
      in st2\<lparr>console := console st2 @ [[ascii ''New session started:'', sid]]\<rparr>)"

text \<open>
  The change listener of the language toggle. The browser has already flipped
  \<^verbatim>\<open>languageToggle.checked\<close> when the listener runs.
\<close>

definition languageToggle_change :: "int \<Rightarrow> jsstring \<Rightarrow> page \<Rightarrow> page" where
  "languageToggle_change now rnd36 st =
     (let st1 = st\<lparr>currentLanguage := (if toggle_checked st then Ar else En)\<rparr>;
          st2 = st1\<lparr>console := console st1 @
                   [[ascii ''Language changed to: '' @ language_code (currentLanguage st1)]]\<rparr>
      in startNewSession now rnd36 (updateUIText st2))"

section \<open>The submission flow\<close>

definition alertMessage :: "language \<Rightarrow> jsstring" where
  "alertMessage l =
     (if l = En then ascii ''Please select a client first.''
      else units [1610, 1585, 1580, 1609, 32, 1575, 1582, 1578, 1610, 1575, 1585, 32,
                  1593, 1605, 1610, 1604, 32, 1571, 1608, 1604, 1575, 1611, 46])"

text \<open>
  How the request ends. \<open>Rejected msg\<close>: the promise of \<^verbatim>\<open>fetch\<close> rejects with an
  error whose message is \<open>msg\<close>. \<open>Responded status body\<close>: it resolves with a
  response of that status, whose body is one of
  \<^item> \<open>BodyNotJson msg\<close>: \<^verbatim>\<open>response.json()\<close> rejects with message \<open>msg\<close>;
  \<^item> \<open>BodyNull msg\<close>: the body is the JSON value \<^verbatim>\<open>null\<close>, so reading
    \<^verbatim>\<open>data.answer\<close> throws a TypeError with message \<open>msg\<close>;
  \<^item> \<open>BodyAnswer a\<close>: \<open>a\<close> is \<^verbatim>\<open>data.answer\<close> as the \<^verbatim>\<open>innerHTML\<close> setter
    receives it (converted to a string).
\<close>

datatype body = BodyNotJson jsstring | BodyNull jsstring | BodyAnswer jsstring

datatype fetch_outcome = Rejected jsstring | Responded nat body

text \<open>\<^verbatim>\<open>response.ok\<close>: the status is in the range 200 to 299.\<close>

definition response_ok :: "nat \<Rightarrow> bool" where
  "response_ok status \<longleftrightarrow> 200 \<le> status \<and> status \<le> 299"

text \<open>
  \<^verbatim>\<open>element.remove()\<close> on a message element: the element leaves the chat box if it
  is a child of it; a detached element stays detached.
\<close>

definition remove_node :: "nat \<Rightarrow> page \<Rightarrow> page" where
  "remove_node h st = st\<lparr>chatBox := filter (\<lambda>m. node m \<noteq> h) (chatBox st)\<rparr>"

text \<open>
  The submit listener up to its first \<^verbatim>\<open>await\<close>. It returns the page and, when the
  request was issued, the handle of the placeholder message.
\<close>

definition chatForm_submit :: "page \<Rightarrow> page \<times> nat option" where
  "chatForm_submit st =
     (let query = trim (input_value st) in
      if query = [] then (st, None)
      else
        let clientId = selector_value st in
        if clientId = [] then
          (st\<lparr>alerts := alerts st @ [alertMessage (currentLanguage st)]\<rparr>, None)
        else
          let st1 = snd (appendMessage query (ascii ''user-message'') False st);
              st2 = st1\<lparr>input_value := []\<rparr>;
              st3 = toggleFormState True st2;
              (thinkingIndicator, st4) =
                 appendMessage (ascii ''Thinking...'') (ascii ''bot-message thinking'') False st3;
              st5 = st4\<lparr>requests := requests st4 @
                      [\<lparr>req_url = ascii ''/chat'', req_method = ascii ''POST'',
                        req_query = query, req_session_id = currentSessionId st4,
                        req_client_id = clientId,
                        req_language = language_code (currentLanguage st4)\<rparr>]\<rparr>
          in (st5, Some thinkingIndicator))"

text \<open>
  The \<^verbatim>\<open>try\<close> block after the request has settled: \<open>Inr\<close> the page when it
  completes, \<open>Inl\<close> the page and \<^verbatim>\<open>error.message\<close> when it throws.
\<close>

definition try_block :: "fetch_outcome \<Rightarrow> nat \<Rightarrow> page \<Rightarrow> (page \<times> jsstring) + page" where
  "try_block outcome thinkingIndicator st =
     (case outcome of
        Rejected msg \<Rightarrow> Inl (st, msg)
      | Responded status body \<Rightarrow>
          if \<not> response_ok status then
            Inl (st, ascii ''HTTP error! status: '' @ decimal status)
          else
            (case body of
               BodyNotJson msg \<Rightarrow> Inl (st, msg)
             | BodyNull msg \<Rightarrow> Inl (remove_node thinkingIndicator st, msg)
             | BodyAnswer answer \<Rightarrow>
                 Inr (snd (appendMessage answer (ascii ''bot-message'') True
                             (remove_node thinkingIndicator st)))))"

text \<open>
  The rest of the submit listener, run on the page as it is when the request has
  settled: \<^verbatim>\<open>try\<close>, \<^verbatim>\<open>catch\<close>, \<^verbatim>\<open>finally\<close>.
\<close>

definition chatForm_resume :: "fetch_outcome \<Rightarrow> nat \<Rightarrow> page \<Rightarrow> page" where
  "chatForm_resume outcome thinkingIndicator st =
     toggleFormState False
       (case try_block outcome thinkingIndicator st of
          Inr st1 \<Rightarrow> st1
        | Inl (st1, message) \<Rightarrow>
            snd (appendMessage (ascii ''Sorry, an error occurred: '' @ message)
                   (ascii ''bot-message'') False (remove_node thinkingIndicator st1)))"

text \<open>A whole submission during which no other listener runs.\<close>

definition chatForm_submission :: "fetch_outcome \<Rightarrow> page \<Rightarrow> page" where
  "chatForm_submission outcome st =
     (case chatForm_submit st of
        (st1, None) \<Rightarrow> st1
      | (st1, Some thinkingIndicator) \<Rightarrow> chatForm_resume outcome thinkingIndicator st1)"

text \<open>
  The script's body, run once on \<^verbatim>\<open>DOMContentLoaded\<close>: the variables are
  initialised, then \<^verbatim>\<open>startNewSession(); updateUIText();\<close>.
\<close>

definition DOMContentLoaded :: "int \<Rightarrow> jsstring \<Rightarrow> page \<Rightarrow> page" where
  "DOMContentLoaded now rnd36 st =
     updateUIText (startNewSession now rnd36
       (st\<lparr>currentSessionId := None, currentLanguage := En\<rparr>))"

section \<open>Events\<close>

text \<open>
  The browser delivers a click on a feedback button to the listener of the message
  that owns the button. \<open>on_feedback f h\<close> runs the listener \<open>f\<close> on the message with
  handle \<open>h\<close> if it is in the chat box and has a feedback area, and prints what the
  listener prints.
\<close>

fun dispatch ::
  "(feedback_area \<Rightarrow> feedback_area \<times> jsstring list list) \<Rightarrow> nat \<Rightarrow> message list
     \<Rightarrow> message list \<times> jsstring list list" where
  "dispatch f h [] = ([], [])"
| "dispatch f h (m # ms) =
     (if node m = h then
        (case msg_feedback m of
           None \<Rightarrow> (m # ms, [])
         | Some fa \<Rightarrow> (m\<lparr>msg_feedback := Some (fst (f fa))\<rparr> # ms, snd (f fa)))
      else (m # fst (dispatch f h ms), snd (dispatch f h ms)))"

definition on_feedback ::
  "(feedback_area \<Rightarrow> feedback_area \<times> jsstring list list) \<Rightarrow> nat \<Rightarrow> page \<Rightarrow> page" where
  "on_feedback f h st =
     st\<lparr>chatBox := fst (dispatch f h (chatBox st)),
        console := console st @ snd (dispatch f h (chatBox st))\<rparr>"

text \<open>The same for the \<open>k\<close>-th comment box of a feedback area.\<close>

definition on_box ::
  "(comment_box \<Rightarrow> comment_box \<times> jsstring list list) \<Rightarrow> nat \<Rightarrow> feedback_area
     \<Rightarrow> feedback_area \<times> jsstring list list" where
  "on_box f k fa =
     (if k < length (area_boxes fa) then
        (fa\<lparr>area_boxes := (area_boxes fa)[k := fst (f (area_boxes fa ! k))]\<rparr>,
         snd (f (area_boxes fa ! k)))
      else (fa, []))"

text \<open>The user edits the text area of a comment box.\<close>

definition textarea_input :: "jsstring \<Rightarrow> comment_box \<Rightarrow> comment_box \<times> jsstring list list" where
  "textarea_input v commentBox =
     (case box_children commentBox of
        Form ta submitText \<Rightarrow>
          (commentBox\<lparr>box_children := Form (ta\<lparr>ta_value := v\<rparr>) submitText\<rparr>, [])
      | Markup _ \<Rightarrow> (commentBox, []))"

text \<open>
  What can happen on the page once it is loaded: the user edits the query or picks a
  client, clicks the refresh button, flips the language toggle, submits the form, a
  request settles, or the user works the feedback controls of a message.
\<close>

datatype event =
    Input jsstring
  | Select jsstring
  | Refresh int jsstring
  | Toggle int jsstring
  | Submit
  | Settle nat fetch_outcome
  | Like nat
  | Dislike nat
  | Comment nat
  | CommentInput nat nat jsstring
  | CommentSubmit nat nat

fun step :: "event \<Rightarrow> page \<Rightarrow> page" where
  "step (Input v) st = st\<lparr>input_value := v\<rparr>"
| "step (Select v) st = st\<lparr>selector_value := v\<rparr>"
| "step (Refresh now rnd36) st = startNewSession now rnd36 st"
| "step (Toggle now rnd36) st =
     languageToggle_change now rnd36 (st\<lparr>toggle_checked := \<not> toggle_checked st\<rparr>)"
| "step Submit st = fst (chatForm_submit st)"
| "step (Settle h outcome) st = chatForm_resume outcome h st"
| "step (Like h) st = on_feedback likeBtn_click h st"
| "step (Dislike h) st = on_feedback dislikeBtn_click h st"
| "step (Comment h) st = on_feedback commentBtn_click h st"
| "step (CommentInput h k v) st = on_feedback (on_box (textarea_input v) k) h st"
| "step (CommentSubmit h k) st = on_feedback (on_box submitBtn_click k) h st"

fun run :: "event list \<Rightarrow> page \<Rightarrow> page" where
  "run [] st = st"
| "run (e # es) st = run es (step e st)"

section \<open>A host page\<close>

text \<open>
  A host document before the script runs: empty controls, the toggle unchecked, an
  empty chat box.
\<close>

definition host_page :: page where
  "host_page =
     \<lparr>currentSessionId = None, currentLanguage = En, doc_lang = [], doc_dir = [],
      label_text = [], input_placeholder = [], input_value = [], input_disabled = False,
      send_text = [], send_disabled = False, selector_value = [],
      selector_disabled = False, session_span = [], toggle_checked = False,
      chatBox = [], next_node = 0, console = [], alerts = [], requests = []\<rparr>"

text \<open>
  The host page once the script has run, and the same page after the user has typed
  a question and picked a client.
\<close>

definition loaded_page :: page where
  "loaded_page = DOMContentLoaded 1700000000000 (ascii ''0.4fzyo82mvyr'') host_page"

definition example_page :: page where
  "example_page =
     run [Input (ascii '' What is the balance? ''), Select (ascii ''C123'')] loaded_page"

text \<open>
  A host document whose language toggle is already checked when the script runs (the
  markup has it checked, or the browser has restored it), once the script has run.
\<close>

definition checked_page :: page where
  "checked_page =
     DOMContentLoaded 1700000000000 (ascii ''0.4fzyo82mvyr'')
       (host_page\<lparr>toggle_checked := True\<rparr>)"

text \<open>The same after the user has first switched the page to Arabic.\<close>

definition arabic_page :: page where
  "arabic_page =
     run [Toggle 1700000000001 (ascii ''0.9zzk4b7a1c''),
          Input (ascii '' What is the balance? ''), Select (ascii ''C123'')] loaded_page"

text \<open>
  A session on that page: the question is submitted and answered, the user likes the
  answer, opens the comment box and types a comment. \<open>example_area\<close> is the
  feedback area of the answer at the end of it.
\<close>

definition example_events :: "event list" where
  "example_events =
     [Input (ascii '' What is the balance? ''), Select (ascii ''C123''), Submit,
      Settle 2 (Responded 200 (BodyAnswer (ascii ''Balance: $500''))),
      Like 3, Comment 3, CommentInput 3 0 (ascii '' Thanks '')]"

definition example_area :: feedback_area where
  "example_area =
     fst (on_box (textarea_input (ascii '' Thanks '')) 0
       (fst (commentBtn_click (fst (likeBtn_click new_feedbackArea)))))"

definition example_message :: message where
  "example_message =
     \<lparr>node = 3, msg_className = ascii ''message bot-message'',
      p_innerHTML = ascii ''Balance: $500'', msg_feedback = Some example_area\<rparr>"

section \<open>Invariants\<close>

text \<open>
  What holds of every feedback area on the page: like and dislike are not both
  selected, there is at most one comment box, every box carries the class that
  \<^verbatim>\<open>querySelector\<close> looks for, and the comment button is selected exactly when a
  box is open.
\<close>

definition feedback_ok :: "feedback_area \<Rightarrow> bool" where
  "feedback_ok fa \<longleftrightarrow>
     \<not> (selected (likeBtn fa) \<and> selected (dislikeBtn fa)) \<and>
     length (area_boxes fa) \<le> 1 \<and>
     list_all (\<lambda>b. box_className b = ascii ''comment-box'') (area_boxes fa) \<and>
     (selected (commentBtn fa) \<longleftrightarrow> area_boxes fa \<noteq> [])"

text \<open>
  What holds of every page the script produces: the message elements of the chat box
  are different nodes, all made before \<open>next_node\<close>, and their feedback areas are
  in order.
\<close>

abbreviation (input) msg_ok :: "nat \<Rightarrow> message \<Rightarrow> bool" where
  "msg_ok n m \<equiv> node m < n \<and> (case msg_feedback m of None \<Rightarrow> True | Some fa \<Rightarrow> feedback_ok fa)"

definition page_ok :: "page \<Rightarrow> bool" where
  "page_ok st \<longleftrightarrow>
     distinct (map node (chatBox st)) \<and> list_all (msg_ok (next_node st)) (chatBox st)"

section \<open>Evaluation and basic facts\<close>

text \<open>The equation of \<open>decimal\<close> is unfolded by hand.\<close>

declare decimal.simps [simp del]

lemmas eval_defs =
  loaded_page_def example_page_def arabic_page_def host_page_def DOMContentLoaded_def
  startNewSession_def languageToggle_change_def
  updateUIText_def appendMessage_def toggleFormState_def chatForm_submit_def
  chatForm_resume_def try_block_def remove_node_def response_ok_def session_token_def
  numberToString_def substr_def welcomeMessage_def alertMessage_def language_code_def
  trim_def isWhiteSpace_def ascii_def units_def Let_def case_prod_beta

lemmas feedback_defs =
  on_feedback_def on_box_def textarea_input_def submitBtn_click_def likeBtn_click_def
  dislikeBtn_click_def commentBtn_click_def querySelector_comment_box_def
  classList_add_def classList_remove_def classList_toggle_def createCommentBox_def
  new_feedbackArea_def createFeedbackButton_def selected_def

lemma appendMessage_fst: "fst (appendMessage text cls fb st) = next_node st"
  by (simp add: appendMessage_def Let_def)

lemma appendMessage_snd:
  "snd (appendMessage text cls fb st) =
     st\<lparr>chatBox := chatBox st @
           [\<lparr>node = next_node st, msg_className = ascii ''message '' @ cls,
             p_innerHTML = text,
             msg_feedback = (if fb then Some new_feedbackArea else None)\<rparr>],
        next_node := Suc (next_node st)\<rparr>"
  by (simp add: appendMessage_def Let_def)

lemma dispatch_nodes: "map node (fst (dispatch f h ms)) = map node ms"
  by (induction ms) (auto split: option.splits)

subsection \<open>Node numbers only grow\<close>

lemma next_node_startNewSession:
  "next_node (startNewSession now r st) = Suc (next_node st)"
  by (simp add: startNewSession_def Let_def appendMessage_snd)

lemma next_node_updateUIText: "next_node (updateUIText st) = next_node st"
  by (simp add: updateUIText_def)

lemma next_node_submit: "next_node st \<le> next_node (fst (chatForm_submit st))"
  by (simp add: chatForm_submit_def Let_def case_prod_beta appendMessage_snd
      appendMessage_fst toggleFormState_def)

lemma next_node_resume: "next_node st \<le> next_node (chatForm_resume out h st)"
  by (simp add: chatForm_resume_def try_block_def Let_def appendMessage_snd
      toggleFormState_def remove_node_def split: fetch_outcome.splits body.splits)

lemma next_node_step: "next_node st \<le> next_node (step e st)"
  by (cases e) (simp_all add: next_node_startNewSession languageToggle_change_def Let_def
      next_node_updateUIText next_node_submit next_node_resume on_feedback_def)

lemma next_node_run: "next_node st \<le> next_node (run es st)"
proof (induction es arbitrary: st)
  case Nil
  show ?case by simp
next
  case (Cons e es)
  have "next_node st \<le> next_node (step e st)" by (rule next_node_step)
  also have "\<dots> \<le> next_node (run es (step e st))" by (rule Cons.IH)
  finally show ?case by simp
qed

section \<open>The submission flow\<close>

text \<open>
  What the submit listener has done when it reaches its \<^verbatim>\<open>await\<close>: the query
  and the client are not empty, the query and the placeholder have been appended, the
  input is cleared, the three controls are disabled and one request is on its way.
\<close>

lemma submit_awaiting:
  assumes "snd (chatForm_submit st) = Some h"
  shows "trim (input_value st) \<noteq> []" and "selector_value st \<noteq> []"
    and "h = Suc (next_node st)"
    and "fst (chatForm_submit st) =
      st\<lparr>chatBox := chatBox st @
           [\<lparr>node = next_node st, msg_className = ascii ''message user-message'',
             p_innerHTML = trim (input_value st), msg_feedback = None\<rparr>,
            \<lparr>node = Suc (next_node st),
             msg_className = ascii ''message bot-message thinking'',
             p_innerHTML = ascii ''Thinking...'', msg_feedback = None\<rparr>],
         next_node := Suc (Suc (next_node st)),
         input_value := [], input_disabled := True, send_disabled := True,
         selector_disabled := True,
         requests := requests st @
            [\<lparr>req_url = ascii ''/chat'', req_method = ascii ''POST'',
              req_query = trim (input_value st), req_session_id = currentSessionId st,
              req_client_id = selector_value st,
              req_language = language_code (currentLanguage st)\<rparr>]\<rparr>"
  using assms
  by (simp_all add: chatForm_submit_def Let_def case_prod_beta appendMessage_snd
      appendMessage_fst toggleFormState_def ascii_def split: if_splits)

lemma resume_answer:
  assumes "response_ok status"
  shows "chatForm_resume (Responded status (BodyAnswer answer)) h st =
     st\<lparr>chatBox := filter (\<lambda>m. node m \<noteq> h) (chatBox st) @
           [\<lparr>node = next_node st, msg_className = ascii ''message bot-message'',
             p_innerHTML = answer, msg_feedback = Some new_feedbackArea\<rparr>],
        next_node := Suc (next_node st),
        input_disabled := False, send_disabled := False, selector_disabled := False\<rparr>"
  using assms
  by (simp add: chatForm_resume_def try_block_def appendMessage_snd remove_node_def
      toggleFormState_def ascii_def)

lemma try_block_fails:
  "try_block (Rejected msg) h st = Inl (st, msg)"
  "\<not> response_ok status \<Longrightarrow>
     try_block (Responded status body) h st =
       Inl (st, ascii ''HTTP error! status: '' @ decimal status)"
  "response_ok status \<Longrightarrow>
     try_block (Responded status (BodyNotJson msg)) h st = Inl (st, msg)"
  "response_ok status \<Longrightarrow>
     try_block (Responded status (BodyNull msg)) h st = Inl (remove_node h st, msg)"
  by (simp_all add: try_block_def)

text \<open>
  Whatever the \<^verbatim>\<open>try\<close> block throws, and whether or not it had removed the
  placeholder before, the \<^verbatim>\<open>catch\<close> and \<^verbatim>\<open>finally\<close> blocks leave the chat box
  without the placeholder, with the error message at its end, and the controls
  enabled.
\<close>

lemma resume_error:
  assumes "try_block outcome h st = Inl (st1, reason)"
    and "st1 = st \<or> st1 = remove_node h st"
  shows "chatBox (chatForm_resume outcome h st) =
       filter (\<lambda>m. node m \<noteq> h) (chatBox st) @
           [\<lparr>node = next_node st, msg_className = ascii ''message bot-message'',
             p_innerHTML = ascii ''Sorry, an error occurred: '' @ reason,
             msg_feedback = None\<rparr>]"
   and "\<not> input_disabled (chatForm_resume outcome h st)"
   and "\<not> send_disabled (chatForm_resume outcome h st)"
   and "\<not> selector_disabled (chatForm_resume outcome h st)"
  using assms
  by (auto simp add: chatForm_resume_def appendMessage_snd remove_node_def
      toggleFormState_def ascii_def)

text \<open>
  An answer whose body cannot be read ends like a failure, although its status is a
  success.
\<close>

lemma resume_unreadable_body:
  assumes "response_ok status" and "body = BodyNotJson msg \<or> body = BodyNull msg"
  shows "chatBox (chatForm_resume (Responded status body) h st) =
       filter (\<lambda>m. node m \<noteq> h) (chatBox st) @
           [\<lparr>node = next_node st, msg_className = ascii ''message bot-message'',
             p_innerHTML = ascii ''Sorry, an error occurred: '' @ msg,
             msg_feedback = None\<rparr>]"
  using assms(2)
proof
  assume "body = BodyNotJson msg"
  then show ?thesis
    using resume_error(1) [OF try_block_fails(3) [OF assms(1)]] by simp
next
  assume "body = BodyNull msg"
  then show ?thesis
    using resume_error(1) [OF try_block_fails(4) [OF assms(1)]] by simp
qed

text \<open>
  Claim C10. When the text of the input field is empty after trimming, the submit
  listener returns at once and changes nothing: the page it leaves is the page it
  found (no alert even with no client selected, no message, no request, no control
  disabled, the input field keeps its value), and nothing is awaited.
\<close>

theorem blank_query_noop:
  assumes "trim (input_value st) = []"
  shows "chatForm_submit st = (st, None) \<and> chatForm_submission outcome st = st"
  using assms by (simp add: chatForm_submit_def chatForm_submission_def)

theorem blank_query_noop_witness:
  "trim (input_value (loaded_page\<lparr>input_value := ascii ''   ''\<rparr>)) = [] \<and>
   selector_value (loaded_page\<lparr>input_value := ascii ''   ''\<rparr>) = [] \<and>
   chatForm_submit (loaded_page\<lparr>input_value := ascii ''   ''\<rparr>)
     = (loaded_page\<lparr>input_value := ascii ''   ''\<rparr>, None)"
proof -
  have a: "trim (input_value (loaded_page\<lparr>input_value := ascii ''   ''\<rparr>)) = []"
    by (simp add: trim_def isWhiteSpace_def ascii_def)
  have b: "selector_value (loaded_page\<lparr>input_value := ascii ''   ''\<rparr>) = []"
    by (simp add: eval_defs)
  from blank_query_noop [OF a] a b show ?thesis by simp
qed

text \<open>
  Claim C4, as stated, fails: a submission with no client selected raises no alert
  when the query is blank, since the listener checks the query first.
\<close>

theorem no_client_counterexample:
  "input_value loaded_page = [] \<and> selector_value loaded_page = [] \<and>
   alerts (fst (chatForm_submit loaded_page)) = []"
  by (simp add: eval_defs)

text \<open>
  Claim C4, amended. For every submission with a query that is not blank and an
  empty client selection, the listener raises the alert in the current language and
  changes nothing else: no request is issued, the chat box is as it was, no control
  is disabled, and nothing is awaited. The English and the Arabic alert differ.
\<close>

theorem no_client_alert:
  assumes "trim (input_value st) \<noteq> []" and "selector_value st = []"
  shows "chatForm_submit st =
           (st\<lparr>alerts := alerts st @ [alertMessage (currentLanguage st)]\<rparr>, None)
       \<and> requests (fst (chatForm_submit st)) = requests st
       \<and> chatBox (fst (chatForm_submit st)) = chatBox st
       \<and> input_disabled (fst (chatForm_submit st)) = input_disabled st
       \<and> send_disabled (fst (chatForm_submit st)) = send_disabled st
       \<and> selector_disabled (fst (chatForm_submit st)) = selector_disabled st
       \<and> alertMessage En \<noteq> alertMessage Ar"
  using assms by (simp add: chatForm_submit_def Let_def alertMessage_def ascii_def units_def)

theorem no_client_alert_witness:
  "trim (input_value (loaded_page\<lparr>input_value := ascii ''Hi''\<rparr>)) \<noteq> [] \<and>
   selector_value (loaded_page\<lparr>input_value := ascii ''Hi''\<rparr>) = [] \<and>
   alerts (fst (chatForm_submit (loaded_page\<lparr>input_value := ascii ''Hi''\<rparr>)))
     = [ascii ''Please select a client first.''] \<and>
   requests (fst (chatForm_submit (loaded_page\<lparr>input_value := ascii ''Hi''\<rparr>))) = []"
proof -
  have a: "trim (input_value (loaded_page\<lparr>input_value := ascii ''Hi''\<rparr>)) \<noteq> []"
    by (simp add: trim_def isWhiteSpace_def ascii_def)
  have b: "selector_value (loaded_page\<lparr>input_value := ascii ''Hi''\<rparr>) = []"
    by (simp add: eval_defs)
  have c: "alerts loaded_page = []" "requests loaded_page = []"
    "currentLanguage loaded_page = En"
    by (simp_all add: eval_defs)
  from no_client_alert [OF a b] a b c show ?thesis
    by (simp add: alertMessage_def)
qed

text \<open>
  Claim C1, as stated, fails: a response of status 200 whose body is not JSON makes
  \<^verbatim>\<open>response.json()\<close> reject, so the \<^verbatim>\<open>catch\<close> block runs and the last message is
  the error message, with no feedback controls, instead of an answer.
\<close>

theorem success_status_counterexample:
  "snd (chatForm_submit example_page) = Some 2 \<and> response_ok 200 \<and>
   last (chatBox (chatForm_resume
       (Responded 200 (BodyNotJson (ascii ''Unexpected end of JSON input''))) 2
       (fst (chatForm_submit example_page))))
     = \<lparr>node = 3, msg_className = ascii ''message bot-message'',
        p_innerHTML = ascii ''Sorry, an error occurred: Unexpected end of JSON input'',
        msg_feedback = None\<rparr>"
  by (simp add: eval_defs)

text \<open>
  Claim C1, amended. Take a submission that reaches its \<^verbatim>\<open>await\<close> with the
  placeholder \<open>h\<close> (the last message then is "Thinking..."), let any events happen
  meanwhile, and let the request succeed with a status from 200 to 299 and a body that
  is JSON with the answer field \<open>answer\<close>. Then the placeholder is no longer in the
  chat box, the chat box is what it was without the placeholder followed by a new bot
  message holding the answer with the feedback controls attached, and the input
  field, the send button and the client selector are enabled.
\<close>

theorem success_renders_answer:
  assumes "snd (chatForm_submit st0) = Some h"
    and "response_ok status"
    and "st = run es (fst (chatForm_submit st0))"
    and "st' = chatForm_resume (Responded status (BodyAnswer answer)) h st"
  shows "last (chatBox (fst (chatForm_submit st0))) =
           \<lparr>node = h, msg_className = ascii ''message bot-message thinking'',
            p_innerHTML = ascii ''Thinking...'', msg_feedback = None\<rparr>
       \<and> h \<notin> node ` set (chatBox st')
       \<and> chatBox st' = filter (\<lambda>m. node m \<noteq> h) (chatBox st) @
           [\<lparr>node = next_node st, msg_className = ascii ''message bot-message'',
             p_innerHTML = answer, msg_feedback = Some new_feedbackArea\<rparr>]
       \<and> \<not> input_disabled st' \<and> \<not> send_disabled st' \<and> \<not> selector_disabled st'"
proof -
  let ?st1 = "fst (chatForm_submit st0)"
  have h: "h = Suc (next_node st0)" and st1: "next_node ?st1 = Suc (Suc (next_node st0))"
    and l: "last (chatBox ?st1) =
           \<lparr>node = h, msg_className = ascii ''message bot-message thinking'',
            p_innerHTML = ascii ''Thinking...'', msg_feedback = None\<rparr>"
    using submit_awaiting(3,4) [OF assms(1)] by simp_all
  have "next_node ?st1 \<le> next_node st"
    unfolding assms(3) by (rule next_node_run)
  with h st1 have fresh: "next_node st \<noteq> h" by simp
  have eq: "st' = st\<lparr>chatBox := filter (\<lambda>m. node m \<noteq> h) (chatBox st) @
           [\<lparr>node = next_node st, msg_className = ascii ''message bot-message'',
             p_innerHTML = answer, msg_feedback = Some new_feedbackArea\<rparr>],
        next_node := Suc (next_node st),
        input_disabled := False, send_disabled := False, selector_disabled := False\<rparr>"
    unfolding assms(4) by (rule resume_answer [OF assms(2)])
  from fresh l show ?thesis by (auto simp add: eq)
qed

theorem success_renders_answer_witness:
  "snd (chatForm_submit example_page) = Some 2 \<and> response_ok 200 \<and>
   map p_innerHTML (chatBox (chatForm_resume
       (Responded 200 (BodyAnswer (ascii ''Balance: $500''))) 2
       (fst (chatForm_submit example_page))))
     = [welcomeMessage En, ascii ''What is the balance?'', ascii ''Balance: $500''] \<and>
   \<not> input_disabled (chatForm_resume
       (Responded 200 (BodyAnswer (ascii ''Balance: $500''))) 2
       (fst (chatForm_submit example_page)))"
proof -
  have a: "snd (chatForm_submit example_page) = Some 2" by (simp add: eval_defs)
  have b: "response_ok 200" by (simp add: response_ok_def)
  have c: "fst (chatForm_submit example_page) = run [] (fst (chatForm_submit example_page))"
    by simp
  have d: "map p_innerHTML
       (filter (\<lambda>m. node m \<noteq> 2) (chatBox (fst (chatForm_submit example_page))))
     = [welcomeMessage En, ascii ''What is the balance?'']"
    by (simp add: eval_defs)
  from success_renders_answer [OF a b c refl, of "ascii ''Balance: $500''"] a b d
  show ?thesis by simp
qed

text \<open>
  Claim C2, as stated, fails twice. A rejected request and a response of status 500
  give different messages, so the causes do not collapse into one message; and on a
  page switched to Arabic the message is the English one.
\<close>

theorem failure_message_counterexample:
  "snd (chatForm_submit example_page) = Some 2 \<and>
   p_innerHTML (last (chatBox (chatForm_resume (Rejected (ascii ''Failed to fetch'')) 2
       (fst (chatForm_submit example_page)))))
     = ascii ''Sorry, an error occurred: Failed to fetch'' \<and>
   p_innerHTML (last (chatBox (chatForm_resume (Responded 500 (BodyNotJson [])) 2
       (fst (chatForm_submit example_page)))))
     = ascii ''Sorry, an error occurred: HTTP error! status: 500'' \<and>
   ascii ''Sorry, an error occurred: Failed to fetch''
     \<noteq> ascii ''Sorry, an error occurred: HTTP error! status: 500'' \<and>
   currentLanguage arabic_page = Ar \<and>
   snd (chatForm_submit arabic_page) = Some 3 \<and>
   p_innerHTML (last (chatBox (chatForm_resume (Rejected (ascii ''Failed to fetch'')) 3
       (fst (chatForm_submit arabic_page)))))
     = ascii ''Sorry, an error occurred: Failed to fetch''"
  by (simp add: eval_defs decimal.simps)

text \<open>
  Claim C2, amended. Take a submission that reaches its \<^verbatim>\<open>await\<close> with the
  placeholder \<open>h\<close>, let any events happen meanwhile, and let the request fail: either
  it is rejected, with the error's message as the reason, or it is answered with a
  status outside 200 to 299, with "HTTP error! status: " and the status as the reason.
  Then the placeholder is no longer in the chat box, the chat box is what it was
  without the placeholder followed by a new bot message "Sorry, an error occurred: "
  and the reason, with no feedback controls, and the input field, the send button and
  the client selector are enabled.
\<close>

theorem failure_renders_error:
  assumes "snd (chatForm_submit st0) = Some h"
    and "outcome = Rejected reason \<or>
         (\<exists>status body. outcome = Responded status body \<and> \<not> response_ok status \<and>
            reason = ascii ''HTTP error! status: '' @ decimal status)"
    and "st = run es (fst (chatForm_submit st0))"
    and "st' = chatForm_resume outcome h st"
  shows "last (chatBox (fst (chatForm_submit st0))) =
           \<lparr>node = h, msg_className = ascii ''message bot-message thinking'',
            p_innerHTML = ascii ''Thinking...'', msg_feedback = None\<rparr>
       \<and> h \<notin> node ` set (chatBox st')
       \<and> chatBox st' = filter (\<lambda>m. node m \<noteq> h) (chatBox st) @
           [\<lparr>node = next_node st, msg_className = ascii ''message bot-message'',
             p_innerHTML = ascii ''Sorry, an error occurred: '' @ reason,
             msg_feedback = None\<rparr>]
       \<and> \<not> input_disabled st' \<and> \<not> send_disabled st' \<and> \<not> selector_disabled st'"
proof -
  let ?st1 = "fst (chatForm_submit st0)"
  have h: "h = Suc (next_node st0)" and st1: "next_node ?st1 = Suc (Suc (next_node st0))"
    and l: "last (chatBox ?st1) =
           \<lparr>node = h, msg_className = ascii ''message bot-message thinking'',
            p_innerHTML = ascii ''Thinking...'', msg_feedback = None\<rparr>"
    using submit_awaiting(3,4) [OF assms(1)] by simp_all
  have "next_node ?st1 \<le> next_node st"
    unfolding assms(3) by (rule next_node_run)
  with h st1 have fresh: "next_node st \<noteq> h" by simp
  from assms(2) have t: "try_block outcome h st = Inl (st, reason)"
    by (auto simp add: try_block_fails)
  have "st = st \<or> st = remove_node h st" by simp
  note r = resume_error [OF t this, folded assms(4)]
  from fresh l show ?thesis by (auto simp add: r)
qed

theorem failure_renders_error_witness:
  "snd (chatForm_submit example_page) = Some 2 \<and> \<not> response_ok 500 \<and>
   map p_innerHTML (chatBox (chatForm_resume (Responded 500 (BodyNotJson [])) 2
       (fst (chatForm_submit example_page))))
     = [welcomeMessage En, ascii ''What is the balance?'',
        ascii ''Sorry, an error occurred: HTTP error! status: 500'']"
proof -
  have a: "snd (chatForm_submit example_page) = Some 2" by (simp add: eval_defs)
  have b: "\<not> response_ok 500" by (simp add: response_ok_def)
  have b': "Responded 500 (BodyNotJson []) =
              Rejected (ascii ''HTTP error! status: '' @ decimal 500) \<or>
         (\<exists>status body. Responded 500 (BodyNotJson []) = Responded status body \<and>
            \<not> response_ok status \<and>
            ascii ''HTTP error! status: '' @ decimal 500 =
              ascii ''HTTP error! status: '' @ decimal status)"
    using b by simp
  have c: "fst (chatForm_submit example_page) = run [] (fst (chatForm_submit example_page))"
    by simp
  have d: "map p_innerHTML
       (filter (\<lambda>m. node m \<noteq> 2) (chatBox (fst (chatForm_submit example_page))))
     = [welcomeMessage En, ascii ''What is the balance?'']"
    by (simp add: eval_defs)
  have e: "decimal 500 = ascii ''500''" by (simp add: ascii_def decimal.simps)
  from failure_renders_error [OF a b' c refl] a b d e
  show ?thesis by (simp add: ascii_def)
qed

section \<open>Sessions and languages\<close>

subsection \<open>Session identifiers\<close>

lemma decimal_small: "n < 10 \<Longrightarrow> decimal n = [of_nat (48 + n)]"
  by (subst decimal.simps) simp

lemma decimal_large:
  "\<not> n < 10 \<Longrightarrow> decimal n = decimal (n div 10) @ [of_nat (48 + n mod 10)]"
  by (subst decimal.simps) simp

lemma digit_unat: "n < 10 \<Longrightarrow> unat (of_nat (48 + n) :: 16 word) = 48 + n"
  by (subst unat_of_nat) simp

lemma digit_inj:
  assumes "a < 10" and "b < 10" and "(of_nat (48 + a) :: 16 word) = of_nat (48 + b)"
  shows "a = b"
proof -
  from assms(3) have "unat (of_nat (48 + a) :: 16 word) = unat (of_nat (48 + b) :: 16 word)"
    by (rule arg_cong)
  with assms(1,2) show ?thesis by (simp only: digit_unat add_left_cancel)
qed

lemma decimal_not_Nil: "decimal n \<noteq> []"
  by (cases "n < 10") (simp_all add: decimal_small decimal_large)

lemma decimal_digits: "c \<in> set (decimal n) \<Longrightarrow> 48 \<le> unat c \<and> unat c \<le> 57"
proof (induction n arbitrary: c rule: decimal.induct)
  case (1 n)
  show ?case
  proof (cases "n < 10")
    case True
    with "1.prems" have "c = of_nat (48 + n)" by (simp add: decimal_small)
    with True show ?thesis by (simp only: digit_unat) simp
  next
    case False
    with "1.prems" have "c \<in> set (decimal (n div 10)) \<or> c = of_nat (48 + n mod 10)"
      by (auto simp add: decimal_large)
    then show ?thesis
    proof
      assume "c \<in> set (decimal (n div 10))"
      with False show ?thesis by (rule "1.IH")
    next
      assume c: "c = of_nat (48 + n mod 10)"
      have "n mod 10 < 10" by simp
      then have "unat (of_nat (48 + n mod 10) :: 16 word) = 48 + n mod 10"
        by (rule digit_unat)
      with c show ?thesis by simp
    qed
  qed
qed

lemma decimal_inj: "decimal a = decimal b \<Longrightarrow> a = b"
proof (induction a arbitrary: b rule: decimal.induct)
  case (1 n)
  show ?case
  proof (cases "n < 10")
    case n: True
    show ?thesis
    proof (cases "b < 10")
      case True
      with n "1.prems" have "(of_nat (48 + n) :: 16 word) = of_nat (48 + b)"
        by (simp only: decimal_small list.inject)
      with n True show ?thesis by (rule digit_inj)
    next
      case False
      with n "1.prems" have "decimal (b div 10) = []"
        by (simp add: decimal_small decimal_large Cons_eq_append_conv)
      then show ?thesis by (simp add: decimal_not_Nil)
    qed
  next
    case n: False
    show ?thesis
    proof (cases "b < 10")
      case True
      with n "1.prems" have "decimal (n div 10) = []"
        by (simp add: decimal_small decimal_large append_eq_Cons_conv)
      then show ?thesis by (simp add: decimal_not_Nil)
    next
      case False
      from "1.prems" have "decimal (n div 10) @ [of_nat (48 + n mod 10)] =
          decimal (b div 10) @ [of_nat (48 + b mod 10)]"
        unfolding decimal_large [OF n] decimal_large [OF False] .
      then have e: "decimal (n div 10) = decimal (b div 10)"
        and d: "(of_nat (48 + n mod 10) :: 16 word) = of_nat (48 + b mod 10)"
        by (simp_all only: append1_eq_conv)
      from n e have "n div 10 = b div 10" by (rule "1.IH")
      moreover have "n mod 10 = b mod 10" by (rule digit_inj [OF _ _ d]) simp_all
      ultimately show ?thesis by (metis div_mult_mod_eq)
    qed
  qed
qed

lemma decimal_no_char:
  assumes "unat c < 48"
  shows "c \<notin> set (decimal n)"
  using assms decimal_digits [of c n] by auto

lemma decimal_no_underscore: "0x5F \<notin> set (decimal n)"
  using decimal_digits [of "0x5F" n] by auto

lemma numberToString_no_underscore: "0x5F \<notin> set (numberToString i)"
  by (simp add: numberToString_def decimal_no_underscore)

lemma decimal_no_minus: "decimal n \<noteq> 0x2D # cs"
proof
  assume "decimal n = 0x2D # cs"
  then have "0x2D \<in> set (decimal n)" by simp
  then show False using decimal_no_char [of "0x2D" n] by simp
qed

lemma numberToString_inj:
  assumes "numberToString i = numberToString j"
  shows "i = j"
proof (cases "i < 0")
  case i: True
  show ?thesis
  proof (cases "j < 0")
    case True
    with i assms have "decimal (nat (- i)) = decimal (nat (- j))"
      by (simp add: numberToString_def)
    then have "nat (- i) = nat (- j)" by (rule decimal_inj)
    with i True show ?thesis by simp
  next
    case False
    with i assms have "decimal (nat j) = 0x2D # decimal (nat (- i))"
      by (simp add: numberToString_def)
    then show ?thesis by (simp add: decimal_no_minus)
  qed
next
  case i: False
  show ?thesis
  proof (cases "j < 0")
    case True
    with i assms have "decimal (nat i) = 0x2D # decimal (nat (- j))"
      by (simp add: numberToString_def)
    then show ?thesis by (simp add: decimal_no_minus)
  next
    case False
    with i assms have "decimal (nat i) = decimal (nat j)"
      by (simp add: numberToString_def)
    then have "nat i = nat j" by (rule decimal_inj)
    with i False show ?thesis by simp
  qed
qed

lemma split_at_first:
  assumes "x \<notin> set xs" and "x \<notin> set xs'" and "xs @ x # ys = xs' @ x # ys'"
  shows "xs = xs' \<and> ys = ys'"
  using assms
proof (induction xs arbitrary: xs')
  case Nil
  then show ?case by (cases xs') auto
next
  case (Cons a xs)
  then show ?case by (cases xs') auto
qed

lemma session_token_inj:
  "session_token now r = session_token now' r' \<longleftrightarrow>
     now = now' \<and> substr 2 9 r = substr 2 9 r'"
proof
  assume "session_token now r = session_token now' r'"
  then have "numberToString now @ 0x5F # substr 2 9 r =
             numberToString now' @ 0x5F # substr 2 9 r'"
    by (simp add: session_token_def ascii_def)
  then have "numberToString now = numberToString now' \<and> substr 2 9 r = substr 2 9 r'"
    by (rule split_at_first [OF numberToString_no_underscore numberToString_no_underscore])
  then show "now = now' \<and> substr 2 9 r = substr 2 9 r'"
    by (simp add: numberToString_inj)
next
  assume "now = now' \<and> substr 2 9 r = substr 2 9 r'"
  then show "session_token now r = session_token now' r'"
    by (simp add: session_token_def)
qed

text \<open>
  Claim C6, amended. \<^verbatim>\<open>startNewSession\<close> sets the session identifier, and the text
  that displays it, to "session_", the clock value, "_" and the characters 2 to 10 of
  the random number in base 36; the identifier of the next session is the same
  exactly when its clock value is the same and its kept characters are the same, and
  differs otherwise. It leaves the chat box with one
  message, the welcome message in the current language (the English and the Arabic
  one differ), with no feedback controls, and it changes neither the language nor
  whether the input field, the send button and the client selector are disabled.
\<close>

theorem new_session:
  "currentSessionId (startNewSession now r st) = Some (session_token now r)
   \<and> session_span (startNewSession now r st) = session_token now r
   \<and> (currentSessionId (startNewSession now' r' (startNewSession now r st))
          = currentSessionId (startNewSession now r st)
        \<longleftrightarrow> now' = now \<and> substr 2 9 r' = substr 2 9 r)
   \<and> chatBox (startNewSession now r st) =
        [\<lparr>node = next_node st, msg_className = ascii ''message bot-message'',
          p_innerHTML = welcomeMessage (currentLanguage st), msg_feedback = None\<rparr>]
   \<and> welcomeMessage En \<noteq> welcomeMessage Ar
   \<and> currentLanguage (startNewSession now r st) = currentLanguage st
   \<and> input_disabled (startNewSession now r st) = input_disabled st
   \<and> send_disabled (startNewSession now r st) = send_disabled st
   \<and> selector_disabled (startNewSession now r st) = selector_disabled st"
proof -
  have "welcomeMessage En \<noteq> welcomeMessage Ar"
    by (simp add: welcomeMessage_def ascii_def units_def)
  then show ?thesis
    by (simp add: startNewSession_def Let_def appendMessage_def session_token_inj ascii_def)
qed

theorem new_session_witness:
  "currentSessionId (startNewSession 1700000000001 (ascii ''0.9zzk4b7a1c'') example_page)
      = Some (ascii ''session_1700000000001_9zzk4b7a1'') \<and>
   map p_innerHTML (chatBox (startNewSession 1700000000001 (ascii ''0.9zzk4b7a1c'') example_page))
      = [welcomeMessage En] \<and>
   \<not> input_disabled (startNewSession 1700000000001 (ascii ''0.9zzk4b7a1c'') example_page)"
proof -
  have a: "session_token 1700000000001 (ascii ''0.9zzk4b7a1c'')
             = ascii ''session_1700000000001_9zzk4b7a1''"
    by (simp add: session_token_def numberToString_def substr_def ascii_def decimal.simps)
  have b: "currentLanguage example_page = En" "\<not> input_disabled example_page"
    by (simp_all add: eval_defs)
  from new_session [of 1700000000001 "ascii ''0.9zzk4b7a1c''" example_page] a b
  show ?thesis by simp
qed

text \<open>
  Claim C6, as stated, fails: a new session started within the same millisecond, with
  a random number that agrees with the previous one in the nine characters that are
  kept, has the identifier of the session before.
\<close>

theorem session_identifier_counterexample:
  "currentSessionId loaded_page = Some (ascii ''session_1700000000000_4fzyo82mv'') \<and>
   currentSessionId (step (Refresh 1700000000000 (ascii ''0.4fzyo82mvzz'')) loaded_page)
     = currentSessionId loaded_page"
  by (simp add: loaded_page_def DOMContentLoaded_def startNewSession_def Let_def
      appendMessage_def updateUIText_def session_token_def numberToString_def substr_def
      ascii_def decimal.simps)

text \<open>
  Claim C7, as stated, fails: the script starts in English without reading the
  toggle, so on a page loaded with the toggle checked the first change unchecks it
  and the language, the direction and the welcome message stay English.
\<close>

theorem language_toggle_counterexample:
  "toggle_checked checked_page \<and> currentLanguage checked_page = En \<and>
   doc_dir checked_page = ascii ''ltr'' \<and>
   currentLanguage (step (Toggle 1700000000001 (ascii ''0.9zzk4b7a1c'')) checked_page) = En \<and>
   doc_dir (step (Toggle 1700000000001 (ascii ''0.9zzk4b7a1c'')) checked_page) = ascii ''ltr'' \<and>
   map p_innerHTML (chatBox (step (Toggle 1700000000001 (ascii ''0.9zzk4b7a1c'')) checked_page))
      = [welcomeMessage En]"
  by (simp add: checked_page_def eval_defs)

text \<open>
  Claim C7, amended. The change listener of the language toggle sets the language to
  the one the toggle selects, Arabic when it is checked and English when it is not;
  sets the language and the direction of the document (\<open>rtl\<close> for Arabic, \<open>ltr\<close>
  for English), the label of the client selector, the placeholder of the input field
  and the text of the send button to those of that language; and starts a new
  session, so the chat box holds only the welcome message in that language. After the
  change the language agrees with the toggle; and when it agreed with the toggle
  before the user flipped it, the language after the change differs from the one
  before.
\<close>

theorem language_toggle:
  "currentLanguage (languageToggle_change now r st) = (if toggle_checked st then Ar else En)
   \<and> doc_lang (languageToggle_change now r st)
        = (if toggle_checked st then ascii ''ar'' else ascii ''en'')
   \<and> doc_dir (languageToggle_change now r st)
        = (if toggle_checked st then ascii ''rtl'' else ascii ''ltr'')
   \<and> label_text (languageToggle_change now r st)
        = (if toggle_checked st
           then units [1575, 1582, 1578, 1585, 32, 1575, 1604, 1593, 1605, 1610, 1604, 58]
           else ascii ''Select Client:'')
   \<and> input_placeholder (languageToggle_change now r st)
        = (if toggle_checked st
           then units [1575, 1591, 1585, 1581, 32, 1587, 1572, 1575, 1604, 1575, 1611, 46, 46, 46]
           else ascii ''Ask a question...'')
   \<and> send_text (languageToggle_change now r st)
        = (if toggle_checked st then units [1573, 1585, 1587, 1575, 1604] else ascii ''Send'')
   \<and> currentSessionId (languageToggle_change now r st) = Some (session_token now r)
   \<and> chatBox (languageToggle_change now r st) =
        [\<lparr>node = next_node st, msg_className = ascii ''message bot-message'',
          p_innerHTML = welcomeMessage (if toggle_checked st then Ar else En),
          msg_feedback = None\<rparr>]
   \<and> welcomeMessage En \<noteq> welcomeMessage Ar
   \<and> ((currentLanguage (step (Toggle now r) st) = Ar)
        = toggle_checked (step (Toggle now r) st))
   \<and> (((currentLanguage st = Ar) = toggle_checked st) \<longrightarrow>
        currentLanguage (step (Toggle now r) st) \<noteq> currentLanguage st)"
proof -
  have f: "(currentLanguage (step (Toggle now r) st) = Ar)
        = toggle_checked (step (Toggle now r) st)"
    by (simp add: languageToggle_change_def startNewSession_def Let_def appendMessage_def
        updateUIText_def)
  have w: "welcomeMessage En \<noteq> welcomeMessage Ar"
    by (simp add: welcomeMessage_def ascii_def units_def)
  have l: "((currentLanguage st = Ar) = toggle_checked st) \<longrightarrow>
        currentLanguage (step (Toggle now r) st) \<noteq> currentLanguage st"
    by (cases "currentLanguage st")
      (simp_all add: languageToggle_change_def startNewSession_def Let_def appendMessage_def
        updateUIText_def)
  have "currentLanguage (languageToggle_change now r st) = (if toggle_checked st then Ar else En)"
    and "doc_lang (languageToggle_change now r st)
        = (if toggle_checked st then ascii ''ar'' else ascii ''en'')"
    and "doc_dir (languageToggle_change now r st)
        = (if toggle_checked st then ascii ''rtl'' else ascii ''ltr'')"
    and "label_text (languageToggle_change now r st)
        = (if toggle_checked st
           then units [1575, 1582, 1578, 1585, 32, 1575, 1604, 1593, 1605, 1610, 1604, 58]
           else ascii ''Select Client:'')"
    and "input_placeholder (languageToggle_change now r st)
        = (if toggle_checked st
           then units [1575, 1591, 1585, 1581, 32, 1587, 1572, 1575, 1604, 1575, 1611, 46, 46, 46]
           else ascii ''Ask a question...'')"
    and "send_text (languageToggle_change now r st)
        = (if toggle_checked st then units [1573, 1585, 1587, 1575, 1604] else ascii ''Send'')"
    and "currentSessionId (languageToggle_change now r st) = Some (session_token now r)"
    and "chatBox (languageToggle_change now r st) =
        [\<lparr>node = next_node st, msg_className = ascii ''message bot-message'',
          p_innerHTML = welcomeMessage (if toggle_checked st then Ar else En),
          msg_feedback = None\<rparr>]"
    by (simp_all add: languageToggle_change_def startNewSession_def Let_def appendMessage_def
        updateUIText_def ascii_def)
  with w l f show ?thesis by blast
qed

theorem language_toggle_witness:
  "((currentLanguage example_page = Ar) = toggle_checked example_page) \<and>
   currentLanguage example_page = En \<and>
   currentLanguage (step (Toggle 1700000000001 (ascii ''0.9zzk4b7a1c'')) example_page)
      \<noteq> currentLanguage example_page \<and>
   currentLanguage (step (Toggle 1700000000001 (ascii ''0.9zzk4b7a1c'')) example_page) = Ar \<and>
   doc_dir (step (Toggle 1700000000001 (ascii ''0.9zzk4b7a1c'')) example_page) = ascii ''rtl'' \<and>
   map p_innerHTML (chatBox (step (Toggle 1700000000001 (ascii ''0.9zzk4b7a1c'')) example_page))
      = [welcomeMessage Ar]"
proof -
  have a: "(currentLanguage example_page = Ar) = toggle_checked example_page"
    and b: "currentLanguage example_page = En" "\<not> toggle_checked example_page"
    by (simp_all add: eval_defs)
  from language_toggle [where now = 1700000000001 and r = "ascii ''0.9zzk4b7a1c''"
      and st = example_page] a
  have c: "currentLanguage (step (Toggle 1700000000001 (ascii ''0.9zzk4b7a1c'')) example_page)
      \<noteq> currentLanguage example_page"
    by blast
  from language_toggle [where now = 1700000000001 and r = "ascii ''0.9zzk4b7a1c''"
      and st = "example_page\<lparr>toggle_checked := \<not> toggle_checked example_page\<rparr>"] a b c
  show ?thesis by simp
qed

section \<open>Feedback controls\<close>

lemma toggle_mem: "t \<in> set (classList_toggle t cl) \<longleftrightarrow> t \<notin> set cl"
  by (simp add: classList_toggle_def classList_remove_def)

lemma remove_mem: "t \<notin> set (classList_remove t cl)"
  by (simp add: classList_remove_def)

lemma add_mem: "t \<in> set (classList_add t cl)"
  by (simp add: classList_add_def)

lemma like_click_selected:
  "selected (likeBtn (fst (likeBtn_click fa))) \<longleftrightarrow> \<not> selected (likeBtn fa)"
  "\<not> selected (dislikeBtn (fst (likeBtn_click fa)))"
  "commentBtn (fst (likeBtn_click fa)) = commentBtn fa"
  "area_boxes (fst (likeBtn_click fa)) = area_boxes fa"
  by (simp_all add: likeBtn_click_def selected_def toggle_mem remove_mem)

lemma dislike_click_selected:
  "selected (dislikeBtn (fst (dislikeBtn_click fa))) \<longleftrightarrow> \<not> selected (dislikeBtn fa)"
  "\<not> selected (likeBtn (fst (dislikeBtn_click fa)))"
  "commentBtn (fst (dislikeBtn_click fa)) = commentBtn fa"
  "area_boxes (fst (dislikeBtn_click fa)) = area_boxes fa"
  by (simp_all add: dislikeBtn_click_def selected_def toggle_mem remove_mem)

lemma comment_click_closed:
  assumes "area_boxes fa = []"
  shows "area_boxes (fst (commentBtn_click fa)) = [createCommentBox]"
    and "selected (commentBtn (fst (commentBtn_click fa)))"
    and "likeBtn (fst (commentBtn_click fa)) = likeBtn fa"
    and "dislikeBtn (fst (commentBtn_click fa)) = dislikeBtn fa"
  using assms
  by (simp_all add: commentBtn_click_def querySelector_comment_box_def selected_def add_mem)

lemma comment_click_open:
  assumes "area_boxes fa = [b]" and "box_className b = ascii ''comment-box''"
  shows "area_boxes (fst (commentBtn_click fa)) = []"
    and "\<not> selected (commentBtn (fst (commentBtn_click fa)))"
    and "likeBtn (fst (commentBtn_click fa)) = likeBtn fa"
    and "dislikeBtn (fst (commentBtn_click fa)) = dislikeBtn fa"
  using assms
  by (simp_all add: commentBtn_click_def querySelector_comment_box_def selected_def remove_mem)

lemma feedback_ok_boxes:
  assumes "feedback_ok fa"
  shows "area_boxes fa = [] \<or>
         (\<exists>b. area_boxes fa = [b] \<and> box_className b = ascii ''comment-box'')"
proof (cases "area_boxes fa")
  case Nil
  then show ?thesis by simp
next
  case (Cons b bs)
  with assms show ?thesis by (simp add: feedback_ok_def)
qed

lemma feedback_ok_new: "feedback_ok new_feedbackArea"
  by (simp add: feedback_ok_def new_feedbackArea_def createFeedbackButton_def selected_def ascii_def)

lemma feedback_ok_like: "feedback_ok fa \<Longrightarrow> feedback_ok (fst (likeBtn_click fa))"
  by (simp add: feedback_ok_def like_click_selected)

lemma feedback_ok_dislike: "feedback_ok fa \<Longrightarrow> feedback_ok (fst (dislikeBtn_click fa))"
  by (simp add: feedback_ok_def dislike_click_selected)

lemma feedback_ok_comment:
  assumes "feedback_ok fa"
  shows "feedback_ok (fst (commentBtn_click fa))"
  using feedback_ok_boxes [OF assms]
proof
  assume e: "area_boxes fa = []"
  from assms show ?thesis
    by (simp add: feedback_ok_def comment_click_closed [OF e] createCommentBox_def)
next
  assume "\<exists>b. area_boxes fa = [b] \<and> box_className b = ascii ''comment-box''"
  then obtain b where b: "area_boxes fa = [b]" "box_className b = ascii ''comment-box''"
    by blast
  from assms show ?thesis
    by (simp add: feedback_ok_def comment_click_open [OF b])
qed

lemma box_className_textarea_input: "box_className (fst (textarea_input v b)) = box_className b"
  by (simp add: textarea_input_def split: box_children.splits)

lemma box_className_submit: "box_className (fst (submitBtn_click b)) = box_className b"
  by (simp add: submitBtn_click_def Let_def split: box_children.splits)

lemma feedback_ok_on_box:
  assumes "feedback_ok fa" and "\<And>b. box_className (fst (f b)) = box_className b"
  shows "feedback_ok (fst (on_box f k fa))"
  using feedback_ok_boxes [OF assms(1)]
proof
  assume "area_boxes fa = []"
  with assms(1) show ?thesis by (simp add: on_box_def)
next
  assume "\<exists>b. area_boxes fa = [b] \<and> box_className b = ascii ''comment-box''"
  then obtain b where b: "area_boxes fa = [b]" "box_className b = ascii ''comment-box''"
    by blast
  with assms show ?thesis
    by (cases k) (simp_all add: on_box_def feedback_ok_def)
qed

lemma dispatch_ok:
  assumes "list_all (msg_ok n) ms" and "\<And>fa. feedback_ok fa \<Longrightarrow> feedback_ok (fst (f fa))"
  shows "list_all (msg_ok n) (fst (dispatch f h ms))"
  using assms(1)
  by (induction ms) (auto simp add: assms(2) split: option.splits)

lemma page_ok_on_feedback:
  assumes "page_ok st" and "\<And>fa. feedback_ok fa \<Longrightarrow> feedback_ok (fst (f fa))"
  shows "page_ok (on_feedback f h st)"
  using assms(1) dispatch_ok [of "next_node st" "chatBox st" f h, OF _ assms(2)]
  by (simp add: page_ok_def on_feedback_def dispatch_nodes)

lemma msg_ok_mono: "list_all (msg_ok n) ms \<Longrightarrow> n \<le> n' \<Longrightarrow> list_all (msg_ok n') ms"
  by (induction ms) auto

lemma msg_ok_nodes: "list_all (msg_ok n) ms \<Longrightarrow> n \<notin> node ` set ms"
  by (induction ms) auto

lemma page_ok_append:
  assumes "page_ok st"
  shows "page_ok (snd (appendMessage text cls fb st))"
proof -
  from assms have d: "distinct (map node (chatBox st))"
    and a: "list_all (msg_ok (next_node st)) (chatBox st)"
    by (simp_all add: page_ok_def)
  from a have "next_node st \<notin> node ` set (chatBox st)" by (rule msg_ok_nodes)
  moreover from a have "list_all (msg_ok (Suc (next_node st))) (chatBox st)"
    by (rule msg_ok_mono) simp
  ultimately show ?thesis using d
    by (simp add: page_ok_def appendMessage_def Let_def feedback_ok_new)
qed

lemma page_ok_remove: "page_ok st \<Longrightarrow> page_ok (remove_node h st)"
  by (simp add: page_ok_def remove_node_def distinct_map_filter list_all_iff)

lemma page_ok_fields:
  assumes "page_ok st" and "chatBox st' = chatBox st" and "next_node st' = next_node st"
  shows "page_ok st'"
  using assms by (simp add: page_ok_def)

lemma page_ok_startNewSession: "page_ok (startNewSession now r st)"
  by (simp add: page_ok_def startNewSession_def Let_def appendMessage_def)

lemma page_ok_toggleFormState: "page_ok (toggleFormState b st) \<longleftrightarrow> page_ok st"
  by (simp add: page_ok_def toggleFormState_def)

lemma page_ok_updateUIText: "page_ok (updateUIText st) \<longleftrightarrow> page_ok st"
  by (simp add: page_ok_def updateUIText_def)

lemma page_ok_submit:
  assumes "page_ok st"
  shows "page_ok (fst (chatForm_submit st))"
proof -
  let ?st1 = "snd (appendMessage (trim (input_value st)) (ascii ''user-message'') False st)"
  let ?st3 = "toggleFormState True (?st1\<lparr>input_value := []\<rparr>)"
  let ?st4 = "snd (appendMessage (ascii ''Thinking...'') (ascii ''bot-message thinking'') False ?st3)"
  have "page_ok ?st1" using assms by (rule page_ok_append)
  then have "page_ok ?st3" by (simp add: page_ok_def toggleFormState_def)
  then have "page_ok ?st4" by (rule page_ok_append)
  then have 4: "page_ok (?st4\<lparr>requests := rs\<rparr>)" for rs by (simp add: page_ok_def)
  from assms have 0: "page_ok (st\<lparr>alerts := al\<rparr>)" for al by (simp add: page_ok_def)
  show ?thesis
    using assms 0 4 by (simp add: chatForm_submit_def Let_def case_prod_beta)
qed

lemma page_ok_resume:
  assumes "page_ok st"
  shows "page_ok (chatForm_resume outcome h st)"
  using assms
  by (simp add: chatForm_resume_def try_block_def page_ok_toggleFormState page_ok_append
      page_ok_remove split: fetch_outcome.splits body.splits)

lemma page_ok_step:
  assumes "page_ok st"
  shows "page_ok (step e st)"
proof (cases e)
  case (Input v)
  with assms show ?thesis by (simp add: page_ok_def)
next
  case (Select v)
  with assms show ?thesis by (simp add: page_ok_def)
next
  case (Refresh now r)
  then show ?thesis by (simp add: page_ok_startNewSession)
next
  case (Toggle now r)
  then show ?thesis by (simp add: languageToggle_change_def Let_def page_ok_startNewSession)
next
  case Submit
  with assms show ?thesis by (simp add: page_ok_submit)
next
  case (Settle h outcome)
  with assms show ?thesis by (simp add: page_ok_resume)
next
  case (Like h)
  with assms show ?thesis by (simp add: page_ok_on_feedback feedback_ok_like)
next
  case (Dislike h)
  with assms show ?thesis by (simp add: page_ok_on_feedback feedback_ok_dislike)
next
  case (Comment h)
  with assms show ?thesis by (simp add: page_ok_on_feedback feedback_ok_comment)
next
  case (CommentInput h k v)
  with assms show ?thesis
    by (simp add: page_ok_on_feedback feedback_ok_on_box box_className_textarea_input)
next
  case (CommentSubmit h k)
  with assms show ?thesis
    by (simp add: page_ok_on_feedback feedback_ok_on_box box_className_submit)
qed

lemma page_ok_run: "page_ok st \<Longrightarrow> page_ok (run es st)"
  by (induction es arbitrary: st) (simp_all add: page_ok_step)

lemma page_ok_loaded: "page_ok (DOMContentLoaded now r st)"
  by (simp add: DOMContentLoaded_def page_ok_updateUIText page_ok_startNewSession)

lemma reachable_feedback_ok:
  assumes "m \<in> set (chatBox (run es (DOMContentLoaded now r st0)))"
    and "msg_feedback m = Some fa"
  shows "feedback_ok fa"
proof -
  have "page_ok (run es (DOMContentLoaded now r st0))"
    by (rule page_ok_run) (rule page_ok_loaded)
  with assms show ?thesis by (auto simp add: page_ok_def list_all_iff)
qed

text \<open>A click reaches the listener of the message it is made on.\<close>

lemma dispatch_applies:
  assumes "distinct (map node ms)" and "m \<in> set ms" and "msg_feedback m = Some fa"
  shows "fst (dispatch f (node m) ms) =
           map (\<lambda>x. if x = m then m\<lparr>msg_feedback := Some (fst (f fa))\<rparr> else x) ms
       \<and> snd (dispatch f (node m) ms) = snd (f fa)"
  using assms
proof (induction ms)
  case Nil
  then show ?case by simp
next
  case (Cons x xs)
  show ?case
  proof (cases "x = m")
    case True
    with Cons.prems have "m \<notin> set xs" by auto
    then have "map (\<lambda>x. if x = m then m\<lparr>msg_feedback := Some (fst (f fa))\<rparr> else x) xs = xs"
      by (induction xs) auto
    with True Cons.prems(3) show ?thesis by simp
  next
    case False
    with Cons.prems have "m \<in> set xs" "node x \<noteq> node m" by auto
    with Cons False show ?thesis by simp
  qed
qed

text \<open>
  Claim C3. Take any message with feedback controls that is in the chat box after
  any sequence of events on the loaded page, and let \<open>fa\<close> be its feedback area.
  Like and dislike are not both selected. A click on an unselected like selects it
  and leaves dislike unselected, and the same with the two exchanged. A click on a
  selected like unselects it and leaves the dislike button as it is, and the same
  with the two exchanged. Like followed by dislike leaves exactly dislike selected;
  two clicks on an unselected dislike leave neither selected.
\<close>

theorem like_dislike_exclusive:
  assumes "m \<in> set (chatBox (run es (DOMContentLoaded now r st0)))"
    and "msg_feedback m = Some fa"
  shows "\<not> (selected (likeBtn fa) \<and> selected (dislikeBtn fa))
     \<and> (\<not> selected (likeBtn fa) \<longrightarrow>
           selected (likeBtn (fst (likeBtn_click fa))) \<and>
           \<not> selected (dislikeBtn (fst (likeBtn_click fa))))
     \<and> (\<not> selected (dislikeBtn fa) \<longrightarrow>
           selected (dislikeBtn (fst (dislikeBtn_click fa))) \<and>
           \<not> selected (likeBtn (fst (dislikeBtn_click fa))))
     \<and> (selected (likeBtn fa) \<longrightarrow>
           \<not> selected (likeBtn (fst (likeBtn_click fa))) \<and>
           dislikeBtn (fst (likeBtn_click fa)) = dislikeBtn fa)
     \<and> (selected (dislikeBtn fa) \<longrightarrow>
           \<not> selected (dislikeBtn (fst (dislikeBtn_click fa))) \<and>
           likeBtn (fst (dislikeBtn_click fa)) = likeBtn fa)
     \<and> selected (dislikeBtn (fst (dislikeBtn_click (fst (likeBtn_click fa)))))
     \<and> \<not> selected (likeBtn (fst (dislikeBtn_click (fst (likeBtn_click fa)))))
     \<and> (\<not> selected (dislikeBtn fa) \<longrightarrow>
           \<not> selected (dislikeBtn (fst (dislikeBtn_click (fst (dislikeBtn_click fa))))) \<and>
           \<not> selected (likeBtn (fst (dislikeBtn_click (fst (dislikeBtn_click fa))))))"
proof -
  have ok: "feedback_ok fa" using assms by (rule reachable_feedback_ok)
  then have ex: "\<not> (selected (likeBtn fa) \<and> selected (dislikeBtn fa))"
    by (simp add: feedback_ok_def)
  have keep: "classList_remove t cl = cl" if "t \<notin> set cl" for t :: jsstring and cl
    using that by (auto simp add: classList_remove_def filter_id_conv)
  have d: "dislikeBtn (fst (likeBtn_click fa)) = dislikeBtn fa" if "selected (likeBtn fa)"
    using that ex by (simp add: likeBtn_click_def selected_def keep)
  have l: "likeBtn (fst (dislikeBtn_click fa)) = likeBtn fa" if "selected (dislikeBtn fa)"
    using that ex by (simp add: dislikeBtn_click_def selected_def keep)
  show ?thesis
    using ex d l by (simp add: like_click_selected dislike_click_selected)
qed

lemma example_run:
  "chatBox (run example_events (DOMContentLoaded 1700000000000 (ascii ''0.4fzyo82mvyr'') host_page))
     = [\<lparr>node = 0, msg_className = ascii ''message bot-message'',
          p_innerHTML = welcomeMessage En, msg_feedback = None\<rparr>,
        \<lparr>node = 1, msg_className = ascii ''message user-message'',
          p_innerHTML = ascii ''What is the balance?'', msg_feedback = None\<rparr>,
        example_message]"
  by (simp add: example_events_def example_message_def example_area_def eval_defs feedback_defs)

lemma example_area_state:
  "selected (likeBtn example_area)" "\<not> selected (dislikeBtn example_area)"
  "selected (commentBtn example_area)"
  "area_boxes example_area =
     [\<lparr>box_className = ascii ''comment-box'',
       box_children = Form \<lparr>ta_placeholder = ascii ''Provide additional feedback...'',
          ta_rows = 2, ta_value = ascii '' Thanks ''\<rparr> (ascii ''Submit'')\<rparr>]"
  by (simp_all add: example_area_def feedback_defs ascii_def units_def)

theorem like_dislike_exclusive_witness:
  "example_message \<in> set (chatBox (run example_events
       (DOMContentLoaded 1700000000000 (ascii ''0.4fzyo82mvyr'') host_page))) \<and>
   msg_feedback example_message = Some example_area \<and>
   selected (likeBtn example_area) \<and> \<not> selected (dislikeBtn example_area) \<and>
   \<not> selected (likeBtn (fst (likeBtn_click example_area))) \<and>
   selected (dislikeBtn (fst (dislikeBtn_click example_area))) \<and>
   \<not> selected (likeBtn (fst (dislikeBtn_click example_area))) \<and>
   \<not> selected (dislikeBtn (fst (dislikeBtn_click (fst (dislikeBtn_click example_area)))))"
proof -
  have a: "example_message \<in> set (chatBox (run example_events
       (DOMContentLoaded 1700000000000 (ascii ''0.4fzyo82mvyr'') host_page)))"
    by (simp add: example_run)
  have b: "msg_feedback example_message = Some example_area"
    by (simp add: example_message_def)
  from like_dislike_exclusive [OF a b] a b example_area_state(1,2)
  show ?thesis by simp
qed

text \<open>
  Claim C8. Take any message with feedback controls that is in the chat box after
  any sequence of events on the loaded page, and let \<open>fa\<close> be its feedback area.
  It has at most one comment box, and the comment button is selected exactly when
  there is one. A click on the comment button with a box open removes the box, so
  that none is left, and unselects the button. A click with no box open appends a
  new comment box and selects the button, and a second click takes both back.
\<close>

theorem comment_box_toggle:
  assumes "m \<in> set (chatBox (run es (DOMContentLoaded now r st0)))"
    and "msg_feedback m = Some fa"
  shows "length (area_boxes fa) \<le> 1
     \<and> (selected (commentBtn fa) \<longleftrightarrow> area_boxes fa \<noteq> [])
     \<and> (area_boxes fa \<noteq> [] \<longrightarrow>
           area_boxes (fst (commentBtn_click fa)) = [] \<and>
           \<not> selected (commentBtn (fst (commentBtn_click fa))))
     \<and> (area_boxes fa = [] \<longrightarrow>
           area_boxes (fst (commentBtn_click fa)) = [createCommentBox] \<and>
           selected (commentBtn (fst (commentBtn_click fa))) \<and>
           area_boxes (fst (commentBtn_click (fst (commentBtn_click fa)))) = [] \<and>
           \<not> selected (commentBtn (fst (commentBtn_click (fst (commentBtn_click fa))))))"
proof -
  have ok: "feedback_ok fa" using assms by (rule reachable_feedback_ok)
  have closed: "area_boxes (fst (commentBtn_click fa)) = [createCommentBox] \<and>
           selected (commentBtn (fst (commentBtn_click fa))) \<and>
           area_boxes (fst (commentBtn_click (fst (commentBtn_click fa)))) = [] \<and>
           \<not> selected (commentBtn (fst (commentBtn_click (fst (commentBtn_click fa)))))"
    if e: "area_boxes fa = []"
  proof -
    have 1: "area_boxes (fst (commentBtn_click fa)) = [createCommentBox]"
      using e by (rule comment_click_closed)
    have 2: "box_className createCommentBox = ascii ''comment-box''"
      by (simp add: createCommentBox_def)
    show ?thesis
      using comment_click_closed(1,2) [OF e] comment_click_open(1,2) [OF 1 2] by simp
  qed
  have "open": "area_boxes (fst (commentBtn_click fa)) = [] \<and>
           \<not> selected (commentBtn (fst (commentBtn_click fa)))"
    if ne: "area_boxes fa \<noteq> []"
  proof -
    from feedback_ok_boxes [OF ok] ne
    obtain b where b: "area_boxes fa = [b]" "box_className b = ascii ''comment-box''"
      by blast
    show ?thesis using comment_click_open(1,2) [OF b] by simp
  qed
  from ok have "length (area_boxes fa) \<le> 1"
    and "selected (commentBtn fa) \<longleftrightarrow> area_boxes fa \<noteq> []"
    by (simp_all add: feedback_ok_def)
  with closed "open" show ?thesis by blast
qed

theorem comment_box_toggle_witness:
  "example_message \<in> set (chatBox (run example_events
       (DOMContentLoaded 1700000000000 (ascii ''0.4fzyo82mvyr'') host_page))) \<and>
   msg_feedback example_message = Some example_area \<and>
   length (area_boxes example_area) = 1 \<and>
   area_boxes (fst (commentBtn_click example_area)) = [] \<and>
   \<not> selected (commentBtn (fst (commentBtn_click example_area))) \<and>
   area_boxes new_feedbackArea = [] \<and>
   area_boxes (fst (commentBtn_click new_feedbackArea)) = [createCommentBox]"
proof -
  have a: "example_message \<in> set (chatBox (run example_events
       (DOMContentLoaded 1700000000000 (ascii ''0.4fzyo82mvyr'') host_page)))"
    by (simp add: example_run)
  have b: "msg_feedback example_message = Some example_area"
    by (simp add: example_message_def)
  have c: "area_boxes new_feedbackArea = []" 
      "area_boxes (fst (commentBtn_click new_feedbackArea)) = [createCommentBox]"
    by (simp_all add: feedback_defs)
  from comment_box_toggle [OF a b] a b c example_area_state(4)
  show ?thesis by simp
qed

text \<open>
  Claim C9. Take a comment box that still holds its text area and submit button. If
  the text is not empty after trimming, a click on the submit button replaces the
  content of the box with the acknowledgment and prints the trimmed text; otherwise
  the click leaves the box as it is and prints nothing. So the acknowledgment is
  shown, and the text printed, exactly when the trimmed text is not empty.
\<close>

theorem comment_submit:
  assumes "box_children box = Form ta submitText"
  shows "(if trim (ta_value ta) \<noteq> [] then
            submitBtn_click box =
              (box\<lparr>box_children := Markup acknowledgment\<rparr>,
               [[ascii ''Feedback Comment Submitted: \"'' @ trim (ta_value ta) @ ascii ''\"'']])
          else submitBtn_click box = (box, []))
       \<and> (box_children (fst (submitBtn_click box)) = Markup acknowledgment
            \<longleftrightarrow> trim (ta_value ta) \<noteq> [])
       \<and> (snd (submitBtn_click box) \<noteq> [] \<longleftrightarrow> trim (ta_value ta) \<noteq> [])"
  using assms by (simp add: submitBtn_click_def Let_def)

theorem comment_submit_witness:
  "box_children (hd (area_boxes example_area)) =
      Form \<lparr>ta_placeholder = ascii ''Provide additional feedback...'',
          ta_rows = 2, ta_value = ascii '' Thanks ''\<rparr> (ascii ''Submit'') \<and>
   trim (ascii '' Thanks '') = ascii ''Thanks'' \<and>
   box_children (fst (submitBtn_click (hd (area_boxes example_area)))) = Markup acknowledgment \<and>
   snd (submitBtn_click (hd (area_boxes example_area))) =
      [[ascii ''Feedback Comment Submitted: \"Thanks\"'']] \<and>
   box_children createCommentBox =
      Form \<lparr>ta_placeholder = ascii ''Provide additional feedback...'',
          ta_rows = 2, ta_value = []\<rparr> (ascii ''Submit'') \<and>
   submitBtn_click createCommentBox = (createCommentBox, [])"
proof -
  have a: "box_children (hd (area_boxes example_area)) =
      Form \<lparr>ta_placeholder = ascii ''Provide additional feedback...'',
          ta_rows = 2, ta_value = ascii '' Thanks ''\<rparr> (ascii ''Submit'')"
    by (simp add: example_area_state(4))
  have b: "box_children createCommentBox =
      Form \<lparr>ta_placeholder = ascii ''Provide additional feedback...'',
          ta_rows = 2, ta_value = []\<rparr> (ascii ''Submit'')"
    by (simp add: createCommentBox_def)
  have t: "trim (ascii '' Thanks '') = ascii ''Thanks''" "trim [] = []"
    by (simp_all add: trim_def isWhiteSpace_def ascii_def)
  from comment_submit [OF a] comment_submit [OF b] a b t
  show ?thesis by (simp add: ascii_def)
qed

end
